theory Spec2Isabelle
  imports Complex_Main "HOL-Library.Multiset"
begin

section \<open>Python strings and dictionaries\<close>

text \<open>
  Header names are compared case-insensitively by the HTTP session (its header store is a
  case-insensitive dictionary), while the dictionaries built by the client itself are
  plain Python dictionaries. Both are association lists in insertion order. Only the
  ASCII letters are case-folded.
\<close>

definition lower_char :: "char \<Rightarrow> char" where
  "lower_char c =
     (case map_of (zip ''ABCDEFGHIJKLMNOPQRSTUVWXYZ'' ''abcdefghijklmnopqrstuvwxyz'') c of
        None \<Rightarrow> c
      | Some l \<Rightarrow> l)"

definition upper_char :: "char \<Rightarrow> char" where
  "upper_char c =
     (case map_of (zip ''abcdefghijklmnopqrstuvwxyz'' ''ABCDEFGHIJKLMNOPQRSTUVWXYZ'') c of
        None \<Rightarrow> c
      | Some u \<Rightarrow> u)"

definition lower :: "string \<Rightarrow> string" where
  "lower s = map lower_char s"

definition upper :: "string \<Rightarrow> string" where
  "upper s = map upper_char s"

definition lstrip :: "char \<Rightarrow> string \<Rightarrow> string" where
  "lstrip ch s = dropWhile (\<lambda>c. c = ch) s"

definition rstrip :: "char \<Rightarrow> string \<Rightarrow> string" where
  "rstrip ch s = rev (dropWhile (\<lambda>c. c = ch) (rev s))"

type_synonym headers = "(string \<times> string) list"

text \<open>\<^verbatim>\<open>d[k] = v\<close> on a plain dictionary: an existing key keeps its position.\<close>

fun dict_set :: "string \<Rightarrow> string \<Rightarrow> headers \<Rightarrow> headers" where
  "dict_set k v [] = [(k, v)]"
| "dict_set k v ((k', v') # d) =
     (if k' = k then (k', v) # d else (k', v') # dict_set k v d)"

text \<open>\<^verbatim>\<open>d.update(items)\<close> on a plain dictionary.\<close>

fun dict_update :: "headers \<Rightarrow> headers \<Rightarrow> headers" where
  "dict_update d [] = d"
| "dict_update d ((k, v) # items) = dict_update (dict_set k v d) items"

text \<open>
  The same two operations and the lookup on the session's case-insensitive dictionary:
  a key matches when the lower-cased names agree, and a store replaces the name's
  spelling too.
\<close>

fun ci_set :: "string \<Rightarrow> string \<Rightarrow> headers \<Rightarrow> headers" where
  "ci_set k v [] = [(k, v)]"
| "ci_set k v ((k', v') # d) =
     (if lower k' = lower k then (k, v) # d else (k', v') # ci_set k v d)"

fun ci_update :: "headers \<Rightarrow> headers \<Rightarrow> headers" where
  "ci_update d [] = d"
| "ci_update d ((k, v) # items) = ci_update (ci_set k v d) items"

fun ci_get :: "headers \<Rightarrow> string \<Rightarrow> string option" where
  "ci_get [] k = None"
| "ci_get ((k', v) # d) k = (if lower k' = lower k then Some v else ci_get d k)"


section \<open>The HTTP client: \<^verbatim>\<open>BaseAPI\<close> and \<^verbatim>\<open>APIClient\<close>\<close>

text \<open>
  \<^verbatim>\<open>features/support/api/base_api.py\<close>, \<^verbatim>\<open>features/support/clients/api_client.py\<close> and
  \<^verbatim>\<open>support/clients/api_client.py\<close> define the constructor, \<^verbatim>\<open>_setup_retry_strategy\<close>,
  \<^verbatim>\<open>reset_session\<close>, \<^verbatim>\<open>set_correlation_id\<close>, \<^verbatim>\<open>_get_default_headers\<close>, \<^verbatim>\<open>_build_url\<close> and
  \<^verbatim>\<open>_make_request\<close> with the same text (the third passes the method list under the older
  keyword \<^verbatim>\<open>method_whitelist\<close>). They are modelled once, on an extensible record, so that
  every statement also covers a client with further fields.
\<close>

text \<open>
  A response of the HTTP library. Reading the body (\<^verbatim>\<open>response.text\<close>) is the one access
  that the failure report guards against: \<open>Inl e\<close> stands for a body whose reading raises
  with message \<open>e\<close>. The library's truth value of a response is its \<^verbatim>\<open>ok\<close> property.
\<close>

record response =
  status_code :: int
  resp_headers :: headers
  resp_url :: string
  resp_text :: "string + string"

definition ok :: "response \<Rightarrow> bool" where
  "ok r = (\<not> (400 \<le> status_code r \<and> status_code r < 600))"

text \<open>The keyword arguments of a request: the two the client fills in, and the rest.\<close>

record request_kwargs =
  kw_headers :: "headers option"
  kw_timeout :: "int option"
  kw_other :: "(string \<times> string) list"

record request_record =
  req_method :: string
  req_url :: string
  req_kwargs :: request_kwargs

text \<open>The \<^verbatim>\<open>Retry\<close> object handed to the session's adapters.\<close>

record retry =
  retry_total :: int
  status_forcelist :: "int list"
  allowed_methods :: "string list"
  backoff_factor :: int

record base_api =
  base_url :: string
  auth_token :: string
  timeout :: int
  retry_count :: int
  session_headers :: headers
  session_retry :: retry
  last_request :: "request_record option"
  last_response :: "response option"
  last_response_time :: "real option"

text \<open>
  The exceptions of the HTTP library that \<^verbatim>\<open>session.request\<close> raises; all of them are
  subclasses of \<^verbatim>\<open>RequestException\<close>.
\<close>

datatype request_exception =
    ConnectionError string
  | RetryError string

definition setup_retry_strategy :: "'a base_api_scheme \<Rightarrow> 'a base_api_scheme" where
  "setup_retry_strategy c =
     c\<lparr>session_retry :=
         \<lparr>retry_total = retry_count c,
          status_forcelist = [429, 500, 502, 503, 504],
          allowed_methods = [''HEAD'', ''GET'', ''PUT'', ''DELETE'', ''OPTIONS'', ''TRACE''],
          backoff_factor = 1\<rparr>\<rparr>"

text \<open>
  The constructor, with its defaults \<^verbatim>\<open>timeout = 30\<close> and \<^verbatim>\<open>retry_count = 3\<close> for an
  argument that is not given. \<open>fresh_session_headers\<close> are the headers a new HTTP
  session starts with; the placeholder retry object is replaced by
  \<open>setup_retry_strategy\<close> at once.
\<close>

definition BaseAPI ::
  "headers \<Rightarrow> string \<Rightarrow> string \<Rightarrow> int option \<Rightarrow> int option \<Rightarrow> base_api" where
  "BaseAPI fresh_session_headers url token tmo retries =
     setup_retry_strategy
       \<lparr>base_url = rstrip CHR ''/'' url,
        auth_token = token,
        timeout = (case tmo of None \<Rightarrow> 30 | Some t \<Rightarrow> t),
        retry_count = (case retries of None \<Rightarrow> 3 | Some n \<Rightarrow> n),
        session_headers = fresh_session_headers,
        session_retry = \<lparr>retry_total = 0, status_forcelist = [], allowed_methods = [],
                         backoff_factor = 0\<rparr>,
        last_request = None,
        last_response = None,
        last_response_time = None\<rparr>"

definition get_default_headers :: "'a base_api_scheme \<Rightarrow> headers" where
  "get_default_headers c =
     [(''Content-Type'', ''application/json''),
      (''Accept'', ''application/json''),
      (''Authorization'', ''Bearer '' @ auth_token c),
      (''User-Agent'', ''Banking-API-BDD-Tests/1.0'')]"

definition set_correlation_id :: "'a base_api_scheme \<Rightarrow> string \<Rightarrow> 'a base_api_scheme" where
  "set_correlation_id c correlation_id =
     c\<lparr>session_headers := ci_update (session_headers c) [(''X-Correlation-Id'', correlation_id)]\<rparr>"


text \<open>\<^verbatim>\<open>_build_url\<close>; the standard library's \<^verbatim>\<open>urljoin\<close> is a parameter.\<close>

definition build_url ::
  "(string \<Rightarrow> string \<Rightarrow> string) \<Rightarrow> 'a base_api_scheme \<Rightarrow> string \<Rightarrow> string" where
  "build_url urljoin c endpoint = urljoin (base_url c @ ''/'') (lstrip CHR ''/'' endpoint)"


subsection \<open>What the session does with a request\<close>

text \<open>
  \<^verbatim>\<open>session.request\<close> belongs to the HTTP library, not to the repository. Its part that
  the client configures is modelled after the library: the headers of a request are the
  session's headers overlaid with the request's own, and the adapter repeats an attempt
  as the mounted \<^verbatim>\<open>Retry\<close> object says. The source passes \<^verbatim>\<open>total\<close>, \<^verbatim>\<open>status_forcelist\<close>,
  \<^verbatim>\<open>allowed_methods\<close> and \<^verbatim>\<open>backoff_factor\<close> only, so every other setting of the retry object
  has the library's default: \<^verbatim>\<open>Retry-After\<close> headers are respected, and when the retries
  are used up on a response whose status is in the force list the library raises
  (\<^verbatim>\<open>raise_on_status\<close> is true), which the session reports as \<^verbatim>\<open>RetryError\<close>. The
  waiting between attempts and the following of redirects are left out.

  The remote end is a function from the number of the attempt (from 0) to what that
  attempt meets.
\<close>

datatype attempt =
    Responds response
  | ConnectFails string
  | ReadFails string


definition is_method_retryable :: "retry \<Rightarrow> string \<Rightarrow> bool" where
  "is_method_retryable r m =
     (\<not> (allowed_methods r \<noteq> [] \<and> upper m \<notin> set (allowed_methods r)))"

definition has_retry_after :: "response \<Rightarrow> bool" where
  "has_retry_after resp =
     (case ci_get (resp_headers resp) ''Retry-After'' of None \<Rightarrow> False | Some v \<Rightarrow> v \<noteq> [])"

definition is_retry :: "retry \<Rightarrow> string \<Rightarrow> int \<Rightarrow> bool \<Rightarrow> bool" where
  "is_retry r m status retry_after =
     (if \<not> is_method_retryable r m then False
      else if status_forcelist r \<noteq> [] \<and> status \<in> set (status_forcelist r) then True
      else retry_total r \<noteq> 0 \<and> retry_after \<and> status \<in> set [413, 429, 503])"

definition increment :: "retry \<Rightarrow> retry" where
  "increment r = r\<lparr>retry_total := retry_total r - 1\<rparr>"

definition is_exhausted :: "retry \<Rightarrow> bool" where
  "is_exhausted r = (retry_total r < 0)"

text \<open>
  The adapter's loop. The result is the number of attempts made and the outcome.
  A failed connection is retried for every method; a failed read only for a method the
  retry object allows.
\<close>

function urlopen ::
  "retry \<Rightarrow> string \<Rightarrow> (nat \<Rightarrow> attempt) \<Rightarrow> nat \<Rightarrow> nat \<times> (request_exception + response)" where
  "urlopen r m server n =
     (case server n of
        Responds resp \<Rightarrow>
          (if is_retry r m (status_code resp) (has_retry_after resp) then
             (if is_exhausted (increment r) then (Suc n, Inl (RetryError ''too many error responses''))
              else urlopen (increment r) m server (Suc n))
           else (Suc n, Inr resp))
      | ConnectFails e \<Rightarrow>
          (if is_exhausted (increment r) then (Suc n, Inl (ConnectionError e))
           else urlopen (increment r) m server (Suc n))
      | ReadFails e \<Rightarrow>
          (if \<not> is_method_retryable r m then (Suc n, Inl (ConnectionError e))
           else if is_exhausted (increment r) then (Suc n, Inl (ConnectionError e))
           else urlopen (increment r) m server (Suc n)))"
  by pat_completeness auto
termination
  by (relation "measure (\<lambda>(r, m, server, n). nat (retry_total r))")
     (auto simp: increment_def is_exhausted_def)

declare urlopen.simps [simp del]



definition session_request ::
  "'a base_api_scheme \<Rightarrow> string \<Rightarrow> (nat \<Rightarrow> attempt) \<Rightarrow> nat \<times> (request_exception + response)" where
  "session_request c m server = urlopen (session_retry c) m server 0"



subsection \<open>\<^verbatim>\<open>_make_request\<close>\<close>

text \<open>
  \<open>response_time\<close> is the wall-clock difference the method measures around the call.
  The result is the client afterwards, the number of network attempts, and either the
  exception that propagates or the response returned. The log lines are not modelled.
\<close>

definition prepare_kwargs :: "'a base_api_scheme \<Rightarrow> request_kwargs \<Rightarrow> request_kwargs" where
  "prepare_kwargs c kwargs =
     (let headers = get_default_headers c;
          headers = (case kw_headers kwargs of
                       None \<Rightarrow> headers
                     | Some hs \<Rightarrow> if hs \<noteq> [] then dict_update headers hs else headers);
          kwargs = kwargs\<lparr>kw_headers := Some headers\<rparr>
      in case kw_timeout kwargs of
           None \<Rightarrow> kwargs\<lparr>kw_timeout := Some (timeout c)\<rparr>
         | Some t \<Rightarrow> kwargs)"

definition make_request ::
  "(string \<Rightarrow> string \<Rightarrow> string) \<Rightarrow> 'a base_api_scheme \<Rightarrow> string \<Rightarrow> string \<Rightarrow> request_kwargs \<Rightarrow>
   (nat \<Rightarrow> attempt) \<Rightarrow> real \<Rightarrow>
   'a base_api_scheme \<times> nat \<times> (request_exception + response)" where
  "make_request urljoin c m endpoint kwargs server response_time =
     (let url = build_url urljoin c endpoint;
          kwargs = prepare_kwargs c kwargs;
          c = c\<lparr>last_request := Some \<lparr>req_method = m, req_url = url, req_kwargs = kwargs\<rparr>\<rparr>;
          (attempts, outcome) = session_request c m server
      in case outcome of
           Inr resp \<Rightarrow>
             (c\<lparr>last_response := Some resp, last_response_time := Some response_time\<rparr>,
              attempts, Inr resp)
         | Inl e \<Rightarrow> (c, attempts, Inl e))"


section \<open>Metrics kept in the scenario context\<close>

text \<open>
  \<^verbatim>\<open>features/environment.py\<close> keeps two dictionaries in the context: \<^verbatim>\<open>test_metrics\<close> for the
  run and \<^verbatim>\<open>scenario_metrics\<close> for the current scenario. Both have \<^verbatim>\<open>start_time\<close>,
  \<^verbatim>\<open>api_calls\<close> and \<^verbatim>\<open>total_response_time\<close>. An attribute the context may lack is an
  \<open>option\<close>; \<^verbatim>\<open>hasattr\<close> is the test for \<open>Some\<close>. Times are real numbers, Python's
  integers are \<open>int\<close>, and a division is the function \<open>py_div\<close>, which raises on a zero
  divisor as Python does.
\<close>

datatype py_error =
    ValueError string
  | ZeroDivisionError
  | AttributeError string
  | KeyError string
  | AssertionError string
  | RequestError string

definition py_div :: "real \<Rightarrow> real \<Rightarrow> py_error + real" where
  "py_div a b = (if b = 0 then Inl ZeroDivisionError else Inr (a / b))"

record metrics =
  start_time :: real
  api_calls :: int
  total_response_time :: real

record run_metrics = metrics +
  total_scenarios :: int
  passed_scenarios :: int
  failed_scenarios :: int
  skipped_scenarios :: int

record scen_metrics = metrics +
  errors :: "string list"

record behave_context =
  base_url_attr :: "string option"
  test_metrics :: "run_metrics option"
  scenario_metrics :: "scen_metrics option"
  scenario_start_time :: "real option"
  last_error :: "string option"
  response_attr :: "response option"
  last_response_attr :: "response option"
  failure_files :: "string list option"

text \<open>
  \<open>base_url_attr\<close>, \<open>response_attr\<close> and \<open>last_response_attr\<close> are the attributes
  \<^verbatim>\<open>base_url\<close>, \<^verbatim>\<open>response\<close> and \<^verbatim>\<open>last_response\<close> of the context. For \<open>last_error\<close> and the
  two responses, \<open>None\<close> also stands for the attribute set to \<^verbatim>\<open>None\<close>: the source treats
  both alike.

  \<^verbatim>\<open>before_all\<close>: the part that reads the base URL (a missing one aborts the run) and
  initialises the run's metrics. \<open>now\<close> is the clock.
\<close>

definition before_all :: "behave_context \<Rightarrow> string option \<Rightarrow> real \<Rightarrow> py_error + behave_context" where
  "before_all ctx env_base_url now =
     (case env_base_url of
        None \<Rightarrow> Inl (ValueError ''BASE_URL not found in environment'')
      | Some u \<Rightarrow>
          if u = [] then Inl (ValueError ''BASE_URL not found in environment'')
          else Inr (ctx\<lparr>base_url_attr := Some u,
                        test_metrics := Some \<lparr>start_time = now, api_calls = 0,
                          total_response_time = 0, total_scenarios = 0, passed_scenarios = 0,
                          failed_scenarios = 0, skipped_scenarios = 0\<rparr>\<rparr>))"

definition before_scenario :: "behave_context \<Rightarrow> real \<Rightarrow> py_error + behave_context" where
  "before_scenario ctx now =
     (let ctx = ctx\<lparr>scenario_start_time := Some now\<rparr>;
          ctx = ctx\<lparr>scenario_metrics := Some \<lparr>start_time = now, api_calls = 0,
                     total_response_time = 0, errors = []\<rparr>\<rparr>
      in case test_metrics ctx of
           None \<Rightarrow> Inl (AttributeError ''test_metrics'')
         | Some t \<Rightarrow>
             Inr (ctx\<lparr>test_metrics := Some (t\<lparr>total_scenarios := total_scenarios t + 1\<rparr>)\<rparr>))"

text \<open>
  The update every HTTP step performs after a call that returned (\<^verbatim>\<open>update_metrics\<close> in
  \<^verbatim>\<open>common_steps.py\<close>, and the same four lines inline in the other step files).
\<close>

definition update_metrics :: "behave_context \<Rightarrow> real \<Rightarrow> behave_context" where
  "update_metrics ctx response_time =
     (let ctx = (case test_metrics ctx of
                   None \<Rightarrow> ctx
                 | Some t \<Rightarrow>
                     ctx\<lparr>test_metrics := Some (t\<lparr>api_calls := api_calls t + 1,
                       total_response_time := total_response_time t + response_time\<rparr>)\<rparr>)
      in case scenario_metrics ctx of
           None \<Rightarrow> ctx
         | Some s \<Rightarrow>
             ctx\<lparr>scenario_metrics := Some (s\<lparr>api_calls := api_calls s + 1,
               total_response_time := total_response_time s + response_time\<rparr>)\<rparr>)"

text \<open>
  \<^verbatim>\<open>step_get_request\<close>: \<open>outcome\<close> is what the HTTP call does, a response or the
  exception raised. The result is the context afterwards and the error the step raises,
  if any.
\<close>

datatype http_failure =
    Timeout
  | ConnectionFailed string
  | OtherFailure string

definition step_get_request ::
  "behave_context \<Rightarrow> string \<Rightarrow> http_failure + response \<Rightarrow> real \<Rightarrow>
   behave_context \<times> py_error option" where
  "step_get_request ctx endpoint outcome response_time =
     (case outcome of
        Inr resp \<Rightarrow>
          ((update_metrics (ctx\<lparr>response_attr := Some resp\<rparr>) response_time)
             \<lparr>last_response_attr := Some resp\<rparr>, None)
      | Inl Timeout \<Rightarrow>
          (ctx\<lparr>response_attr := None, last_error := Some ''Request timeout''\<rparr>,
           Some (AssertionError (''Request to '' @ endpoint @ '' timed out'')))
      | Inl (ConnectionFailed e) \<Rightarrow>
          (ctx\<lparr>response_attr := None, last_error := Some e\<rparr>,
           Some (AssertionError (''Connection error: '' @ e)))
      | Inl (OtherFailure e) \<Rightarrow>
          (ctx\<lparr>response_attr := None, last_error := Some e\<rparr>,
           Some (AssertionError (''Request failed: '' @ e))))"

text \<open>\<^verbatim>\<open>step_initialize_metrics\<close> and the fallback logger set up metrics that are missing.\<close>

definition step_initialize_metrics :: "behave_context \<Rightarrow> real \<Rightarrow> behave_context" where
  "step_initialize_metrics ctx now =
     (let ctx = (case test_metrics ctx of
                   None \<Rightarrow>
                     ctx\<lparr>test_metrics := Some \<lparr>start_time = now, api_calls = 0,
                       total_response_time = 0, total_scenarios = 0, passed_scenarios = 0,
                       failed_scenarios = 0, skipped_scenarios = 0\<rparr>\<rparr>
                 | Some t \<Rightarrow> ctx)
      in case scenario_metrics ctx of
           None \<Rightarrow>
             ctx\<lparr>scenario_metrics := Some \<lparr>start_time = now, api_calls = 0,
               total_response_time = 0, errors = []\<rparr>\<rparr>
         | Some s \<Rightarrow> ctx)"

text \<open>\<^verbatim>\<open>step_reset_environment\<close>, for the attributes of the model.\<close>

definition step_reset_environment :: "behave_context \<Rightarrow> real \<Rightarrow> behave_context" where
  "step_reset_environment ctx now =
     (let ctx = ctx\<lparr>response_attr := None, last_response_attr := None, last_error := None\<rparr>
      in case scenario_metrics ctx of
           None \<Rightarrow> ctx
         | Some s \<Rightarrow>
             ctx\<lparr>scenario_metrics := Some \<lparr>start_time = now, api_calls = 0,
               total_response_time = 0, errors = []\<rparr>\<rparr>)"

text \<open>
  The average that \<^verbatim>\<open>after_scenario\<close> and \<^verbatim>\<open>after_all\<close> log, with the same two lines on
  their own dictionary: nothing when no time was accumulated, else the total over
  \<^verbatim>\<open>max(api_calls, 1)\<close>.
\<close>

definition average_expr :: "'a metrics_scheme \<Rightarrow> py_error + real" where
  "average_expr m = py_div (total_response_time m) (real_of_int (max (api_calls m) 1))"

definition logged_average :: "'a metrics_scheme \<Rightarrow> py_error + real option" where
  "logged_average m =
     (if total_response_time m > 0 then
        (case average_expr m of Inl e \<Rightarrow> Inl e | Inr a \<Rightarrow> Inr (Some a))
      else Inr None)"

text \<open>
  \<^verbatim>\<open>step_assert_average_response_time\<close>. \<open>fmt\<close> renders the message of a failed assertion
  from the average and the limit.
\<close>

definition step_assert_average_response_time ::
  "(real \<Rightarrow> int \<Rightarrow> string) \<Rightarrow> behave_context \<Rightarrow> int \<Rightarrow> behave_context \<times> py_error option" where
  "step_assert_average_response_time fmt ctx max_time =
     (case scenario_metrics ctx of
        None \<Rightarrow> (ctx, None)
      | Some s \<Rightarrow>
          if api_calls s = 0 then (ctx, None)
          else
            (case py_div (total_response_time s) (real_of_int (api_calls s)) of
               Inl e \<Rightarrow> (ctx, Some e)
             | Inr q \<Rightarrow>
                 let average_response_time_ms = q * 1000 in
                 if average_response_time_ms \<le> real_of_int max_time then (ctx, None)
                 else
                   (ctx\<lparr>scenario_metrics :=
                          Some (s\<lparr>errors := errors s @ [fmt average_response_time_ms max_time]\<rparr>),
                        last_error := Some (fmt average_response_time_ms max_time)\<rparr>,
                    Some (AssertionError (fmt average_response_time_ms max_time)))))"


section \<open>The failure report\<close>

text \<open>
  \<^verbatim>\<open>capture_failure_details\<close> and \<^verbatim>\<open>after_scenario\<close> of \<^verbatim>\<open>features/environment.py\<close>. A
  scenario carries its status by name (the hook compares the status with the strings
  \<^verbatim>\<open>'passed'\<close> and \<^verbatim>\<open>'failed'\<close>). The world outside the context is the report files
  written so far, the environment variable \<^verbatim>\<open>TEST_ENVIRONMENT\<close>, the working directory,
  the time stamp used in file names, and whether writing a report file raises. The
  content of a report file is the list of the items written, in order; how an item is
  rendered as text is not modelled, and neither are the log lines. Creating the report
  directory is taken to succeed.
\<close>

record exception_info =
  exc_type :: string
  exc_message :: string
  exc_traceback :: "string list"

record scenario =
  name :: string
  feature_name :: string
  location :: string
  tags :: "string list"
  status :: string
  exception_attr :: "exception_info option"

record api_response =
  ar_status_code :: int
  ar_headers :: headers
  ar_url :: string
  ar_body :: string

record environment_details =
  env_base_url :: string
  env_test_environment :: string
  env_working_directory :: string

record failure_details =
  fd_timestamp :: real
  fd_scenario :: string
  fd_feature :: string
  fd_location :: string
  fd_duration :: real
  fd_tags :: "string list"
  fd_status :: string
  fd_exception :: "exception_info option"
  fd_last_error :: "string option"
  fd_api_response :: "api_response option"
  fd_api_response_error :: "string option"
  fd_metrics :: "scen_metrics option"
  fd_environment :: environment_details

datatype report_item =
    ReportTime real
  | ReportScenario string
  | ReportFeature string
  | ReportLocation string
  | ReportDuration real
  | ReportTags "string list"
  | ReportStatus string
  | ReportException exception_info
  | ReportLastError string
  | ReportApiResponse api_response
  | ReportMetrics int real "string list"
  | ReportEnvironment environment_details

record world =
  files :: "(string \<times> report_item list) list"
  TEST_ENVIRONMENT :: "string option"
  working_directory :: string
  file_stamp :: string
  write_raises :: "string option"

definition isalnum :: "char \<Rightarrow> bool" where
  "isalnum c =
     (c \<in> set ''ABCDEFGHIJKLMNOPQRSTUVWXYZabcdefghijklmnopqrstuvwxyz0123456789'')"

definition safe_scenario_name :: "string \<Rightarrow> string" where
  "safe_scenario_name n =
     take 50
       (map (\<lambda>c. if c = CHR '' '' then CHR ''_'' else c)
          (map (\<lambda>c. if isalnum c \<or> c \<in> set [CHR '' '', CHR ''-'', CHR ''_''] then c
                    else CHR ''_'') n))"

definition failure_file_name :: "scenario \<Rightarrow> world \<Rightarrow> string" where
  "failure_file_name sc w =
     ''logs/failures/FAILED_'' @ safe_scenario_name (name sc) @ ''_'' @ file_stamp w @ ''.txt''"

text \<open>The guarded block that reads the last response.\<close>

definition gather_api_response :: "response \<Rightarrow> string + api_response" where
  "gather_api_response r =
     (case resp_text r of
        Inl e \<Rightarrow> Inl e
      | Inr t \<Rightarrow>
          Inr \<lparr>ar_status_code = status_code r,
               ar_headers = resp_headers r,
               ar_url = resp_url r,
               ar_body = (if length t > 2000 then take 2000 t @ ''...'' else t)\<rparr>)"

text \<open>The dictionary \<^verbatim>\<open>failure_details\<close>, as built before the file is opened.\<close>

definition collect_failure_details ::
  "behave_context \<Rightarrow> scenario \<Rightarrow> real \<Rightarrow> real \<Rightarrow> world \<Rightarrow> failure_details" where
  "collect_failure_details ctx sc end_time duration w =
     (let gathered =
            (case response_attr ctx of
               None \<Rightarrow> None
             | Some r \<Rightarrow> if ok r then Some (gather_api_response r) else None)
      in \<lparr>fd_timestamp = end_time,
          fd_scenario = name sc,
          fd_feature = feature_name sc,
          fd_location = location sc,
          fd_duration = duration,
          fd_tags = tags sc,
          fd_status = status sc,
          fd_exception = exception_attr sc,
          fd_last_error =
            (case last_error ctx of None \<Rightarrow> None | Some e \<Rightarrow> if e \<noteq> [] then Some e else None),
          fd_api_response =
            (case gathered of Some (Inr a) \<Rightarrow> Some a | _ \<Rightarrow> None),
          fd_api_response_error =
            (case gathered of
               Some (Inl e) \<Rightarrow> Some (''Could not capture response: '' @ e)
             | _ \<Rightarrow> None),
          fd_metrics = scenario_metrics ctx,
          fd_environment =
            \<lparr>env_base_url = (case base_url_attr ctx of None \<Rightarrow> ''Not set'' | Some u \<Rightarrow> u),
             env_test_environment =
               (case TEST_ENVIRONMENT w of None \<Rightarrow> ''Not set'' | Some v \<Rightarrow> v),
             env_working_directory = working_directory w\<rparr>\<rparr>)"

text \<open>What the \<^verbatim>\<open>with open(...)\<close> block writes for a given \<^verbatim>\<open>failure_details\<close>.\<close>

definition report_items :: "failure_details \<Rightarrow> report_item list" where
  "report_items fd =
     [ReportTime (fd_timestamp fd), ReportScenario (fd_scenario fd),
      ReportFeature (fd_feature fd), ReportLocation (fd_location fd),
      ReportDuration (fd_duration fd), ReportTags (fd_tags fd), ReportStatus (fd_status fd)]
     @ (case fd_exception fd of None \<Rightarrow> [] | Some x \<Rightarrow> [ReportException x])
     @ (case fd_last_error fd of None \<Rightarrow> [] | Some e \<Rightarrow> [ReportLastError e])
     @ (case fd_api_response fd of None \<Rightarrow> [] | Some a \<Rightarrow> [ReportApiResponse a])
     @ (case fd_metrics fd of
          None \<Rightarrow> []
        | Some m \<Rightarrow> [ReportMetrics (api_calls m) (total_response_time m) (errors m)])
     @ [ReportEnvironment (fd_environment fd)]"

text \<open>
  \<^verbatim>\<open>capture_failure_details\<close>. Besides the context and the world it returns the
  \<^verbatim>\<open>failure_details\<close> it built (a local variable of the source), so that the record can
  be spoken about. When writing raises, the handler logs and returns: no file is
  recorded.
\<close>

definition capture_failure_details ::
  "behave_context \<Rightarrow> scenario \<Rightarrow> real \<Rightarrow> real \<Rightarrow> world \<Rightarrow>
   behave_context \<times> world \<times> failure_details" where
  "capture_failure_details ctx sc end_time duration w =
     (let failure_file = failure_file_name sc w;
          fd = collect_failure_details ctx sc end_time duration w
      in case write_raises w of
           Some e \<Rightarrow> (ctx, w, fd)
         | None \<Rightarrow>
             (ctx\<lparr>failure_files :=
                    Some ((case failure_files ctx of None \<Rightarrow> [] | Some fs \<Rightarrow> fs) @ [failure_file])\<rparr>,
              w\<lparr>files := files w @ [(failure_file, report_items fd)]\<rparr>,
              fd))"

text \<open>
  \<^verbatim>\<open>after_scenario\<close>. \<open>count_scenario\<close> is its chain over the status, which counts the
  scenario and captures a failed one. The result holds the \<^verbatim>\<open>failure_details\<close> built
  in this call, if any. A missing attribute raises \<^verbatim>\<open>AttributeError\<close>; then the result is
  the error alone.
\<close>

definition count_scenario ::
  "behave_context \<Rightarrow> run_metrics \<Rightarrow> scenario \<Rightarrow> real \<Rightarrow> real \<Rightarrow> world \<Rightarrow>
   behave_context \<times> world \<times> failure_details option" where
  "count_scenario ctx t sc scenario_end_time scenario_duration w =
     (if status sc = ''passed'' then
        (ctx\<lparr>test_metrics := Some (t\<lparr>passed_scenarios := passed_scenarios t + 1\<rparr>)\<rparr>, w, None)
      else if status sc = ''failed'' then
        (case capture_failure_details
                (ctx\<lparr>test_metrics := Some (t\<lparr>failed_scenarios := failed_scenarios t + 1\<rparr>)\<rparr>)
                sc scenario_end_time scenario_duration w of
           (ctx', w', fd) \<Rightarrow> (ctx', w', Some fd))
      else
        (ctx\<lparr>test_metrics := Some (t\<lparr>skipped_scenarios := skipped_scenarios t + 1\<rparr>)\<rparr>, w, None))"

definition after_scenario ::
  "behave_context \<Rightarrow> scenario \<Rightarrow> real \<Rightarrow> world \<Rightarrow>
   py_error + behave_context \<times> world \<times> failure_details option" where
  "after_scenario ctx sc scenario_end_time w =
     (case scenario_start_time ctx of
        None \<Rightarrow> Inl (AttributeError ''scenario_start_time'')
      | Some st \<Rightarrow>
          (case test_metrics ctx of
             None \<Rightarrow> Inl (AttributeError ''test_metrics'')
           | Some t \<Rightarrow>
               (case count_scenario ctx t sc scenario_end_time (scenario_end_time - st) w of
                  (ctx', w', captured) \<Rightarrow>
                    (case scenario_metrics ctx' of
                       None \<Rightarrow> Inl (AttributeError ''scenario_metrics'')
                     | Some s \<Rightarrow>
                         (case logged_average s of
                            Inl e \<Rightarrow> Inl e
                          | Inr a \<Rightarrow>
                              Inr (ctx'\<lparr>scenario_metrics := None, last_error := None\<rparr>,
                                   w', captured))))))"

text \<open>The metrics part of \<^verbatim>\<open>after_all\<close>: the pass rate and the average it logs.\<close>

definition after_all :: "behave_context \<Rightarrow> py_error + real \<times> real option" where
  "after_all ctx =
     (case test_metrics ctx of
        None \<Rightarrow> Inl (AttributeError ''test_metrics'')
      | Some t \<Rightarrow>
          (case (if total_scenarios t > 0 then
                   (case py_div (real_of_int (passed_scenarios t)) (real_of_int (total_scenarios t)) of
                      Inl e \<Rightarrow> Inl e
                    | Inr q \<Rightarrow> Inr (q * 100))
                 else Inr 0) of
             Inl e \<Rightarrow> Inl e
           | Inr pass_rate \<Rightarrow>
               (case logged_average t of
                  Inl e \<Rightarrow> Inl e
                | Inr a \<Rightarrow> Inr (pass_rate, a))))"


section \<open>The concurrent load steps\<close>

text \<open>
  \<^verbatim>\<open>features/steps/performance_steps.py\<close>. The thread pool of the standard library refuses
  a worker count that is not positive. The remote end gives, for the request with index
  \<open>i\<close> (from 0, in the order of submission), what the call does and the time it takes;
  \<open>order\<close> lists the indices in the order in which the requests complete, and
  \<open>wall_time\<close> is the wall-clock time the step measures around the batch.
\<close>

definition ThreadPoolExecutor :: "int \<Rightarrow> py_error + int" where
  "ThreadPoolExecutor max_workers =
     (if max_workers \<le> 0 then Inl (ValueError ''max_workers must be greater than 0'')
      else Inr max_workers)"

record request_result =
  request_id :: int
  result_status_code :: int
  response_time :: real
  success :: bool
  error :: "string option"

record concurrent_results =
  results :: "request_result list"
  total_time :: real
  requests_per_second :: real
  success_count :: nat
  failure_count :: nat
  average_response_time :: real

text \<open>The inner function \<^verbatim>\<open>make_request\<close> of \<^verbatim>\<open>step_concurrent_requests_to_endpoint\<close>.\<close>

definition concurrent_make_request :: "int \<Rightarrow> string + response \<Rightarrow> real \<Rightarrow> request_result" where
  "concurrent_make_request rid outcome elapsed =
     (case outcome of
        Inr resp \<Rightarrow>
          \<lparr>request_id = rid, result_status_code = status_code resp, response_time = elapsed,
           success = (200 \<le> status_code resp \<and> status_code resp < 300), error = None\<rparr>
      | Inl e \<Rightarrow>
          \<lparr>request_id = rid, result_status_code = 0, response_time = elapsed,
           success = False, error = Some e\<rparr>)"

definition step_concurrent_requests_to_endpoint ::
  "int \<Rightarrow> (nat \<Rightarrow> (string + response) \<times> real) \<Rightarrow> nat list \<Rightarrow> real \<Rightarrow>
   py_error + concurrent_results" where
  "step_concurrent_requests_to_endpoint request_count net order wall_time =
     (case ThreadPoolExecutor (min 5 request_count) of
        Inl e \<Rightarrow> Inl e
      | Inr max_workers \<Rightarrow>
          (let rs = map (\<lambda>i. concurrent_make_request (int i + 1) (fst (net i)) (snd (net i))) order
           in case py_div (sum_list (map response_time rs)) (real (length rs)) of
                Inl e \<Rightarrow> Inl e
              | Inr avg \<Rightarrow>
                  Inr \<lparr>results = rs,
                       total_time = wall_time,
                       requests_per_second =
                         (if wall_time > 0 then real (length rs) / wall_time else 0),
                       success_count = length (filter success rs),
                       failure_count = length (filter (\<lambda>r. \<not> success r) rs),
                       average_response_time = avg\<rparr>))"







section \<open>The states a run goes through\<close>

text \<open>
  A run starts with \<^verbatim>\<open>before_all\<close> on an empty context; afterwards the hooks and the steps
  that touch the metrics follow one another in any order.
\<close>

definition empty_context :: behave_context where
  "empty_context =
     \<lparr>base_url_attr = None, test_metrics = None, scenario_metrics = None,
      scenario_start_time = None, last_error = None, response_attr = None,
      last_response_attr = None, failure_files = None\<rparr>"

inductive run_step :: "behave_context \<Rightarrow> behave_context \<Rightarrow> bool" where
  rs_before_scenario: "before_scenario ctx now = Inr ctx' \<Longrightarrow> run_step ctx ctx'"
| rs_get_request: "run_step ctx (fst (step_get_request ctx endpoint outcome elapsed))"
| rs_update_metrics: "run_step ctx (update_metrics ctx elapsed)"
| rs_initialize_metrics: "run_step ctx (step_initialize_metrics ctx now)"
| rs_reset_environment: "run_step ctx (step_reset_environment ctx now)"
| rs_assert_average:
    "run_step ctx (fst (step_assert_average_response_time fmt ctx max_time))"
| rs_after_scenario:
    "after_scenario ctx sc now w = Inr (ctx', w', captured) \<Longrightarrow> run_step ctx ctx'"

inductive reachable :: "behave_context \<Rightarrow> bool" where
  reach_before_all: "before_all empty_context url now = Inr ctx \<Longrightarrow> reachable ctx"
| reach_step: "reachable ctx \<Longrightarrow> run_step ctx ctx' \<Longrightarrow> reachable ctx'"

text \<open>The two call counters of a context; a missing dictionary counts for nothing.\<close>

definition run_calls :: "behave_context \<Rightarrow> int" where
  "run_calls ctx = (case test_metrics ctx of None \<Rightarrow> 0 | Some t \<Rightarrow> api_calls t)"

definition scenario_calls :: "behave_context \<Rightarrow> int" where
  "scenario_calls ctx = (case scenario_metrics ctx of None \<Rightarrow> 0 | Some s \<Rightarrow> api_calls s)"


text \<open>
  The relation between the two that is to hold throughout a run: the run's dictionary is
  there, and the scenario's counter lies between 0 and the run's.
\<close>

definition metrics_invariant :: "behave_context \<Rightarrow> bool" where
  "metrics_invariant ctx =
     (case test_metrics ctx of
        None \<Rightarrow> False
      | Some t \<Rightarrow> 0 \<le> scenario_calls ctx \<and> scenario_calls ctx \<le> api_calls t)"


section \<open>Concrete inputs\<close>

text \<open>The client, requests and remote ends at which the statements below are evaluated.\<close>

definition example_urljoin :: "string \<Rightarrow> string \<Rightarrow> string" where
  "example_urljoin b e = b @ e"

definition example_client :: base_api where
  "example_client = BaseAPI [] ''https://api.example.test'' ''tok123'' None None"

definition no_kwargs :: request_kwargs where
  "no_kwargs = \<lparr>kw_headers = None, kw_timeout = None, kw_other = []\<rparr>"

definition response_with_status :: "int \<Rightarrow> response" where
  "response_with_status s =
     \<lparr>status_code = s, resp_headers = [], resp_url = ''https://api.example.test/accounts'',
      resp_text = Inr ''{}''\<rparr>"



definition always_refused :: "nat \<Rightarrow> attempt" where
  "always_refused n = ConnectFails ''connection refused''"


definition answers_200 :: "nat \<Rightarrow> attempt" where
  "answers_200 n = Responds (response_with_status 200)"

text \<open>The example client after a successful \<^verbatim>\<open>GET /accounts\<close> that took one second.\<close>

definition client_after_success :: base_api where
  "client_after_success =
     fst (make_request example_urljoin example_client ''GET'' ''/accounts'' no_kwargs answers_200 1)"

text \<open>A run: \<^verbatim>\<open>before_all\<close>, the start of a scenario, and one GET that took a quarter second.\<close>

definition context_after_get :: behave_context where
  "context_after_get =
     (case before_all empty_context (Some ''https://api.example.test'') 0 of
        Inl e \<Rightarrow> empty_context
      | Inr c0 \<Rightarrow>
          (case before_scenario c0 1 of
             Inl e \<Rightarrow> c0
           | Inr c1 \<Rightarrow>
               fst (step_get_request c1 ''/accounts'' (Inr (response_with_status 200)) (1/4))))"

definition empty_metrics :: metrics where
  "empty_metrics = \<lparr>start_time = 0, api_calls = 0, total_response_time = 0\<rparr>"

definition example_fmt :: "real \<Rightarrow> int \<Rightarrow> string" where
  "example_fmt a limit = ''Average response time assertion failed''"










section \<open>Properties of the header dictionaries\<close>

lemma lower_Authorization: "lower ''Authorization'' = ''authorization''"
  by (simp add: lower_def lower_char_def)











section \<open>Properties of the client\<close>







lemma session_request_last_request:
  "session_request (c\<lparr>last_request := x\<rparr>) m server = session_request c m server"
  by (simp add: session_request_def)

text \<open>\<^verbatim>\<open>_make_request\<close> by the outcome of the call.\<close>

lemma make_request_unfold:
  "make_request urljoin c m endpoint kwargs server t =
     (case snd (session_request c m server) of
        Inr resp \<Rightarrow>
          (c\<lparr>last_request := Some \<lparr>req_method = m, req_url = build_url urljoin c endpoint,
                                    req_kwargs = prepare_kwargs c kwargs\<rparr>,
             last_response := Some resp, last_response_time := Some t\<rparr>,
           fst (session_request c m server), Inr resp)
      | Inl e \<Rightarrow>
          (c\<lparr>last_request := Some \<lparr>req_method = m, req_url = build_url urljoin c endpoint,
                                    req_kwargs = prepare_kwargs c kwargs\<rparr>\<rparr>,
           fst (session_request c m server), Inl e))"
  by (simp add: make_request_def Let_def build_url_def session_request_last_request
      split: prod.splits sum.splits)


section \<open>Properties of the retry loop\<close>


















section \<open>Claims about the HTTP client\<close>









text \<open>
  C10. When the call of \<^verbatim>\<open>_make_request\<close> fails in the session, the method has already
  stored the failed request as the last request, raises the error, and leaves the last
  response and the last response time as they were: the values of the previous
  successful call, or \<^verbatim>\<open>None\<close> as the constructor set them. No response is made up for
  the failed call, so the stored request and the stored response can belong to two
  different calls.
\<close>

theorem make_request_network_failure:
  assumes "snd (session_request c m server) = Inl e"
  shows "make_request urljoin c m endpoint kwargs server t =
           (c\<lparr>last_request := Some \<lparr>req_method = m, req_url = build_url urljoin c endpoint,
                                     req_kwargs = prepare_kwargs c kwargs\<rparr>\<rparr>,
            fst (session_request c m server), Inl e)
       \<and> last_response (fst (make_request urljoin c m endpoint kwargs server t)) = last_response c
       \<and> last_response_time (fst (make_request urljoin c m endpoint kwargs server t)) =
           last_response_time c
       \<and> last_request (BaseAPI hs url token tmo retries) = None
       \<and> last_response (BaseAPI hs url token tmo retries) = None
       \<and> last_response_time (BaseAPI hs url token tmo retries) = None"
  using assms by (simp add: make_request_unfold BaseAPI_def setup_retry_strategy_def)

lemma client_after_success_eq:
  "client_after_success =
     example_client\<lparr>last_request := Some \<lparr>req_method = ''GET'',
         req_url = ''https://api.example.test/accounts'',
         req_kwargs = prepare_kwargs example_client no_kwargs\<rparr>,
       last_response := Some (response_with_status 200),
       last_response_time := Some 1\<rparr>"
proof -
  have r: "\<not> is_retry (session_retry example_client) ''GET'' 200 h" for h
    by (simp add: is_retry_def example_client_def BaseAPI_def setup_retry_strategy_def)
  have "session_request example_client ''GET'' answers_200 = (1, Inr (response_with_status 200))"
    unfolding session_request_def
    by (subst urlopen.simps) (simp add: answers_200_def r response_with_status_def)
  then show ?thesis
    by (simp add: client_after_success_def make_request_unfold build_url_def example_urljoin_def
        lstrip_def)
       (simp add: example_client_def BaseAPI_def setup_retry_strategy_def rstrip_def)
qed

lemma refused_session_request:
  "session_request client_after_success ''GET'' always_refused =
     (4, Inl (ConnectionError ''connection refused''))"
  by (simp add: client_after_success_eq session_request_def example_client_def BaseAPI_def
      setup_retry_strategy_def urlopen.simps always_refused_def increment_def is_exhausted_def)

theorem make_request_network_failure_witness:
  "snd (session_request client_after_success ''GET'' always_refused) =
     Inl (ConnectionError ''connection refused'')
   \<and> snd (snd (make_request example_urljoin client_after_success ''GET'' ''/customers'' no_kwargs
        always_refused 2)) = Inl (ConnectionError ''connection refused'')
   \<and> map_option req_url (last_request (fst (make_request example_urljoin client_after_success
        ''GET'' ''/customers'' no_kwargs always_refused 2))) =
       Some ''https://api.example.test/customers''
   \<and> map_option resp_url (last_response (fst (make_request example_urljoin client_after_success
        ''GET'' ''/customers'' no_kwargs always_refused 2))) =
       Some ''https://api.example.test/accounts''
   \<and> last_response_time (fst (make_request example_urljoin client_after_success
        ''GET'' ''/customers'' no_kwargs always_refused 2)) = Some 1"
proof -
  have f: "snd (session_request client_after_success ''GET'' always_refused) =
      Inl (ConnectionError ''connection refused'')"
    by (simp add: refused_session_request)
  have u: "build_url example_urljoin client_after_success ''/customers'' =
      ''https://api.example.test/customers''"
    by (simp add: client_after_success_eq build_url_def example_urljoin_def lstrip_def
        example_client_def BaseAPI_def setup_retry_strategy_def rstrip_def)
  show ?thesis
    using make_request_network_failure[OF f, where urljoin = example_urljoin
        and endpoint = "''/customers''" and kwargs = no_kwargs and t = 2] f
    by (simp add: u) (simp add: client_after_success_eq response_with_status_def)
qed


section \<open>Properties of the metrics\<close>

lemma average_expr_returns: "\<exists>a. average_expr m = Inr a"
  by (simp add: average_expr_def py_div_def)

lemma logged_average_returns: "\<exists>a. logged_average m = Inr a"
  using average_expr_returns[of m] by (auto simp: logged_average_def)

lemma step_assert_average_no_division_error:
  "snd (step_assert_average_response_time fmt ctx max_time) \<noteq> Some ZeroDivisionError"
  by (auto simp: step_assert_average_response_time_def py_div_def Let_def split: option.splits)

lemma capture_keeps_metrics:
  "capture_failure_details ctx sc e d w = (ctx', w', fd) \<Longrightarrow>
   test_metrics ctx' = test_metrics ctx \<and> scenario_metrics ctx' = scenario_metrics ctx
   \<and> scenario_start_time ctx' = scenario_start_time ctx"
  by (auto simp: capture_failure_details_def Let_def split: option.splits)

text \<open>Counting the scenario changes no call counter and leaves the scenario's metrics.\<close>

lemma count_scenario_metrics:
  assumes "count_scenario ctx t sc e d w = (ctx', w', captured)"
  shows "(\<exists>t'. test_metrics ctx' = Some t' \<and> api_calls t' = api_calls t
            \<and> total_response_time t' = total_response_time t)
         \<and> scenario_metrics ctx' = scenario_metrics ctx"
proof (cases "status sc = ''passed''")
  case True
  then show ?thesis using assms by (auto simp: count_scenario_def)
next
  case np: False
  show ?thesis
  proof (cases "status sc = ''failed''")
    case True
    obtain c1 w1 fd where c: "capture_failure_details
        (ctx\<lparr>test_metrics := Some (t\<lparr>failed_scenarios := failed_scenarios t + 1\<rparr>)\<rparr>)
        sc e d w = (c1, w1, fd)"
      by (cases "capture_failure_details
        (ctx\<lparr>test_metrics := Some (t\<lparr>failed_scenarios := failed_scenarios t + 1\<rparr>)\<rparr>)
        sc e d w") auto
    from capture_keeps_metrics[OF c] c assms np True show ?thesis
      by (auto simp: count_scenario_def)
  next
    case False
    then show ?thesis using assms np by (auto simp: count_scenario_def)
  qed
qed

lemma after_scenario_no_division_error: "after_scenario ctx sc now w \<noteq> Inl ZeroDivisionError"
proof -
  have "logged_average s \<noteq> Inl ZeroDivisionError" for s :: scen_metrics
    using logged_average_returns[of s] by auto
  then show ?thesis
    by (auto simp: after_scenario_def split: option.splits prod.splits sum.splits)
qed

lemma after_all_no_division_error: "after_all ctx \<noteq> Inl ZeroDivisionError"
proof -
  have "logged_average t \<noteq> Inl ZeroDivisionError" for t :: run_metrics
    using logged_average_returns[of t] by auto
  then show ?thesis
    by (auto simp: after_all_def py_div_def split: option.splits sum.splits)
qed

text \<open>What one step of a run does to the two counters, when the run's dictionary is there.\<close>

lemma run_step_counters:
  assumes "run_step ctx ctx'" and "test_metrics ctx = Some t" and "0 \<le> scenario_calls ctx"
  shows "\<exists>t'. test_metrics ctx' = Some t' \<and> api_calls t \<le> api_calls t'
           \<and> 0 \<le> scenario_calls ctx'
           \<and> scenario_calls ctx' - scenario_calls ctx \<le> api_calls t' - api_calls t"
  using assms
proof (cases rule: run_step.cases)
  case (rs_before_scenario now)
  then show ?thesis using assms(2,3)
    by (auto simp: before_scenario_def Let_def scenario_calls_def)
next
  case (rs_get_request endpoint outcome elapsed)
  then show ?thesis using assms(2,3)
    by (auto simp: step_get_request_def update_metrics_def Let_def scenario_calls_def
        split: option.splits sum.splits http_failure.splits)
next
  case (rs_update_metrics elapsed)
  then show ?thesis using assms(2,3)
    by (auto simp: update_metrics_def Let_def scenario_calls_def split: option.splits)
next
  case (rs_initialize_metrics now)
  then show ?thesis using assms(2,3)
    by (auto simp: step_initialize_metrics_def Let_def scenario_calls_def split: option.splits)
next
  case (rs_reset_environment now)
  then show ?thesis using assms(2,3)
    by (auto simp: step_reset_environment_def Let_def scenario_calls_def split: option.splits)
next
  case (rs_assert_average fmt max_time)
  then show ?thesis using assms(2,3)
    by (auto simp: step_assert_average_response_time_def Let_def scenario_calls_def
        split: option.splits sum.splits)
next
  case (rs_after_scenario sc now w w' captured)
  from rs_after_scenario assms(2) obtain st c1 w1 cap1 where
      c: "count_scenario ctx t sc now (now - st) w = (c1, w1, cap1)"
      and c': "ctx' = c1\<lparr>scenario_metrics := None, last_error := None\<rparr>"
    by (auto simp: after_scenario_def split: option.splits prod.splits sum.splits)
  from count_scenario_metrics[OF c] obtain t' where
      "test_metrics c1 = Some t'" "api_calls t' = api_calls t"
    by blast
  then show ?thesis using c' assms(3) by (simp add: scenario_calls_def)
qed

lemma before_all_invariant:
  "before_all empty_context url now = Inr ctx \<Longrightarrow> metrics_invariant ctx"
  by (auto simp: before_all_def empty_context_def metrics_invariant_def scenario_calls_def
      split: option.splits if_splits)

lemma run_step_invariant:
  assumes "run_step ctx ctx'" and "metrics_invariant ctx"
  shows "metrics_invariant ctx'"
proof -
  from assms(2) obtain t where t: "test_metrics ctx = Some t"
      "0 \<le> scenario_calls ctx" "scenario_calls ctx \<le> api_calls t"
    by (auto simp: metrics_invariant_def split: option.splits)
  from run_step_counters[OF assms(1) t(1,2)] obtain t' where
      "test_metrics ctx' = Some t'" "0 \<le> scenario_calls ctx'"
      "scenario_calls ctx' - scenario_calls ctx \<le> api_calls t' - api_calls t"
    by blast
  then show ?thesis using t(3) by (simp add: metrics_invariant_def)
qed

lemma reachable_invariant: "reachable ctx \<Longrightarrow> metrics_invariant ctx"
  by (induction rule: reachable.induct) (auto intro: before_all_invariant run_step_invariant)


section \<open>Claims about the metrics\<close>

text \<open>
  C4. On an empty metrics snapshot (no calls, no accumulated time) the average that the
  hooks take, the total over \<^verbatim>\<open>max(api_calls, 1)\<close>, is 0, and with no accumulated time the
  hooks log no average at all. For every snapshot the average is a number, never a
  division error. The assertion step returns at once, without error, when the scenario
  has no calls, and neither it nor \<^verbatim>\<open>after_scenario\<close> nor \<^verbatim>\<open>after_all\<close> ever raises a
  division error.
\<close>

theorem average_on_empty_snapshot:
  assumes "api_calls m = 0" and "total_response_time m = 0"
  shows "average_expr m = Inr 0
       \<and> logged_average m = Inr None
       \<and> (\<exists>a. average_expr m' = Inr a)
       \<and> (\<exists>a. logged_average m' = Inr a)
       \<and> step_assert_average_response_time fmt (ctx\<lparr>scenario_metrics := Some (s\<lparr>api_calls := 0\<rparr>)\<rparr>)
            max_time = (ctx\<lparr>scenario_metrics := Some (s\<lparr>api_calls := 0\<rparr>)\<rparr>, None)
       \<and> snd (step_assert_average_response_time fmt ctx' max_time) \<noteq> Some ZeroDivisionError
       \<and> after_scenario ctx' sc now w \<noteq> Inl ZeroDivisionError
       \<and> after_all ctx' \<noteq> Inl ZeroDivisionError"
proof -
  have "average_expr m = Inr 0"
    using assms by (simp add: average_expr_def py_div_def)
  moreover have "logged_average m = Inr None"
    using assms by (simp add: logged_average_def)
  moreover have "step_assert_average_response_time fmt
      (ctx\<lparr>scenario_metrics := Some (s\<lparr>api_calls := 0\<rparr>)\<rparr>) max_time =
      (ctx\<lparr>scenario_metrics := Some (s\<lparr>api_calls := 0\<rparr>)\<rparr>, None)"
    by (simp add: step_assert_average_response_time_def)
  ultimately show ?thesis
    using average_expr_returns[of m'] logged_average_returns[of m']
      step_assert_average_no_division_error[of fmt ctx' max_time]
      after_scenario_no_division_error[of ctx' sc now w] after_all_no_division_error[of ctx']
    by blast
qed

theorem average_on_empty_snapshot_witness:
  "api_calls empty_metrics = 0
   \<and> total_response_time empty_metrics = 0
   \<and> average_expr empty_metrics = Inr 0
   \<and> logged_average empty_metrics = Inr None"
proof -
  have a: "api_calls empty_metrics = 0" and b: "total_response_time empty_metrics = 0"
    by (simp_all add: empty_metrics_def)
  from average_on_empty_snapshot[OF a b] a b show ?thesis by blast
qed

text \<open>
  C7. In every state of a run the scenario's call counter is at most the run's. One step
  of a run never lowers the run's counter, and raises the scenario's counter by no more
  than it raises the run's; the start of a scenario and the reset step put the
  scenario's counter to 0 and leave the run's as it is.
\<close>

theorem scenario_calls_le_run_calls:
  assumes "reachable ctx"
  shows "metrics_invariant ctx
       \<and> scenario_calls ctx \<le> run_calls ctx
       \<and> (\<forall>ctx'. run_step ctx ctx' \<longrightarrow>
            run_calls ctx \<le> run_calls ctx'
          \<and> scenario_calls ctx' - scenario_calls ctx \<le> run_calls ctx' - run_calls ctx)
       \<and> run_calls (update_metrics ctx elapsed) = run_calls ctx + 1
       \<and> (\<forall>ctx'. before_scenario ctx now = Inr ctx' \<longrightarrow>
            scenario_calls ctx' = 0 \<and> run_calls ctx' = run_calls ctx)
       \<and> scenario_calls (step_reset_environment ctx now) = 0
       \<and> run_calls (step_reset_environment ctx now) = run_calls ctx"
proof -
  have inv: "metrics_invariant ctx" using assms by (rule reachable_invariant)
  then obtain t where t: "test_metrics ctx = Some t"
      "0 \<le> scenario_calls ctx" "scenario_calls ctx \<le> api_calls t"
    by (auto simp: metrics_invariant_def split: option.splits)
  have le: "scenario_calls ctx \<le> run_calls ctx"
    using t by (simp add: run_calls_def)
  have step: "run_calls ctx \<le> run_calls ctx'
      \<and> scenario_calls ctx' - scenario_calls ctx \<le> run_calls ctx' - run_calls ctx"
    if "run_step ctx ctx'" for ctx'
    using run_step_counters[OF that t(1,2)] t(1) by (auto simp: run_calls_def)
  have upd: "run_calls (update_metrics ctx elapsed) = run_calls ctx + 1"
    using t(1) by (auto simp: update_metrics_def run_calls_def Let_def split: option.splits)
  have bs: "scenario_calls ctx' = 0 \<and> run_calls ctx' = run_calls ctx"
    if "before_scenario ctx now = Inr ctx'" for ctx'
    using that t(1)
    by (auto simp: before_scenario_def Let_def scenario_calls_def run_calls_def)
  have rs: "scenario_calls (step_reset_environment ctx now) = 0
      \<and> run_calls (step_reset_environment ctx now) = run_calls ctx"
    using t(1)
    by (auto simp: step_reset_environment_def Let_def scenario_calls_def run_calls_def
        split: option.splits)
  from inv le step upd bs rs show ?thesis by blast
qed

lemma context_after_get_eq:
  "context_after_get =
     \<lparr>base_url_attr = Some ''https://api.example.test'',
      test_metrics = Some \<lparr>start_time = 0, api_calls = 1, total_response_time = 1/4,
        total_scenarios = 1, passed_scenarios = 0, failed_scenarios = 0, skipped_scenarios = 0\<rparr>,
      scenario_metrics = Some \<lparr>start_time = 1, api_calls = 1, total_response_time = 1/4,
        errors = []\<rparr>,
      scenario_start_time = Some 1, last_error = None,
      response_attr = Some (response_with_status 200),
      last_response_attr = Some (response_with_status 200), failure_files = None\<rparr>"
  by (simp add: context_after_get_def before_all_def before_scenario_def step_get_request_def
      update_metrics_def empty_context_def Let_def)

lemma context_after_get_reachable: "reachable context_after_get"
proof -
  obtain c0 where c0: "before_all empty_context (Some ''https://api.example.test'') 0 = Inr c0"
    by (simp add: before_all_def)
  then have r0: "reachable c0" by (rule reach_before_all)
  obtain c1 where c1: "before_scenario c0 1 = Inr c1"
    using c0 by (auto simp: before_all_def before_scenario_def Let_def)
  have r1: "reachable c1" using r0 rs_before_scenario[OF c1] by (rule reach_step)
  have e: "context_after_get =
      fst (step_get_request c1 ''/accounts'' (Inr (response_with_status 200)) (1/4))"
    by (simp add: context_after_get_def c0 c1)
  have "reachable (fst (step_get_request c1 ''/accounts'' (Inr (response_with_status 200)) (1/4)))"
    using r1 rs_get_request by (rule reach_step)
  then show ?thesis by (simp only: e)
qed

theorem scenario_calls_le_run_calls_witness:
  "reachable context_after_get
   \<and> scenario_calls context_after_get = 1
   \<and> run_calls context_after_get = 1
   \<and> scenario_calls context_after_get \<le> run_calls context_after_get
   \<and> run_calls (update_metrics context_after_get 1) = 2
   \<and> scenario_calls (step_reset_environment context_after_get 2) = 0
   \<and> run_calls (step_reset_environment context_after_get 2) = 1"
proof -
  have s: "scenario_calls context_after_get = 1" and r: "run_calls context_after_get = 1"
    by (simp_all add: context_after_get_eq scenario_calls_def run_calls_def)
  note f = scenario_calls_le_run_calls[OF context_after_get_reachable, of 1 2]
  from f have 1: "scenario_calls context_after_get \<le> run_calls context_after_get" by blast
  from f have "run_calls (update_metrics context_after_get 1) = run_calls context_after_get + 1"
    by blast
  then have 2: "run_calls (update_metrics context_after_get 1) = 2" by (simp add: r)
  from f have 3: "scenario_calls (step_reset_environment context_after_get 2) = 0" by blast
  from f have "run_calls (step_reset_environment context_after_get 2) =
      run_calls context_after_get" by blast
  then have 4: "run_calls (step_reset_environment context_after_get 2) = 1" by (simp add: r)
  from context_after_get_reachable s r 1 2 3 4 show ?thesis by blast
qed


section \<open>Properties of the failure report\<close>








section \<open>Claims about the failure report\<close>








section \<open>Properties of the load steps\<close>







section \<open>Claims about the load steps\<close>

text \<open>
  C3 describes what the code does not do: for no requests the step raises. The worker
  count \<^verbatim>\<open>min(5, 0)\<close> is 0, which the thread pool refuses; and the average the step takes
  afterwards over the results, a division by their number, would raise for an empty
  batch as well.
\<close>

theorem concurrent_zero_requests_raises:
  "step_concurrent_requests_to_endpoint 0 net [] wall_time =
     Inl (ValueError ''max_workers must be greater than 0'')
   \<and> py_div (sum_list (map response_time ([] :: request_result list)))
        (real (length ([] :: request_result list))) = Inl ZeroDivisionError"
  by (simp add: step_concurrent_requests_to_endpoint_def ThreadPoolExecutor_def py_div_def)





end
